theory Spec2Isabelle
  imports Main
begin

section \<open>Thrown values and the error taxonomy\<close>

text \<open>
  The enum \<open>OptionError\<close> of \<open>option.ts\<close>: the reason codes carried by the
  errors the container throws itself.
\<close>

datatype OptionError = NoneValueAccessed | NoneExpected | NoneUnwrapped | PredicateException

text \<open>
  Modelled from the spec: the class \<open>AnyError\<close> is imported from \<open>../error\<close>, which
  is not part of the sources. The spec describes it as a tagged error carrying a reason
  code and an optional original cause; \<open>option.ts\<close> builds it as
  \<open>new AnyError(msg, reason, originalError?)\<close>.

  A JavaScript \<open>throw\<close> accepts any value. A thrown value is an \<open>AnyError\<close>, another
  \<open>Error\<close> object (kept by its message), or a value that is not an \<open>Error\<close> at all
  (of an arbitrary type \<open>'x\<close>). \<open>AnyError\<close> is taken to be a subclass of \<open>Error\<close>.
\<close>

datatype 'x thrown =
    AnyError string OptionError "'x thrown option"
  | JsError string
  | Thrown 'x

text \<open>
  \<open>mkAnyError(msg, reason, e) = new AnyError(msg, reason, e instanceof Error ? e : new Error(stringify(e)))\<close>.
  The helper \<open>stringify\<close> lives in \<open>../__internal\<close> and is a parameter here; \<open>new Error(m)\<close>
  is \<open>JsError m\<close>.
\<close>

fun instanceofError :: "'x thrown \<Rightarrow> bool" where
  "instanceofError (AnyError msg reason original) = True"
| "instanceofError (JsError msg) = True"
| "instanceofError (Thrown x) = False"

definition mkAnyError :: "('x thrown \<Rightarrow> string) \<Rightarrow> string \<Rightarrow> OptionError \<Rightarrow> 'x thrown \<Rightarrow> 'x thrown" where
  "mkAnyError stringify msg reason e =
     AnyError msg reason (Some (if instanceofError e then e else JsError (stringify e)))"

section \<open>The container\<close>

text \<open>
  The private field \<open>#value : T | Nothing\<close> holds either a value of type \<open>T\<close> or the
  module-private symbol \<open>nothing\<close>. The symbol is not exported and no method hands it
  out, so no \<open>T\<close> contains it: the slot is a sum of the marker and the values.
  The symbol-keyed field \<open>[phantom]\<close> holds the string \<open>"some"\<close> or \<open>"none"\<close>.
\<close>

datatype 'a slot = nothing | Held 'a

datatype discriminant = some_tag | none_tag

record 'a Option_obj =
  phantom :: discriminant
  slot_value :: "'a slot"

definition isNothing :: "'a slot \<Rightarrow> bool" where
  "isNothing x = (x = nothing)"

text \<open>The field initialisers: \<open>[phantom] = "none"\<close> and \<open>#value = nothing\<close>.\<close>

definition fresh_fields :: "'a Option_obj" where
  "fresh_fields = \<lparr>phantom = none_tag, slot_value = nothing\<rparr>"

text \<open>\<open>#setValue\<close>, \<open>#replaceValue\<close> and \<open>#takeValue\<close>: state passing on the object.\<close>

definition setValue :: "'a slot \<Rightarrow> 'a Option_obj \<Rightarrow> 'a Option_obj" where
  "setValue v this =
     this\<lparr>phantom := (if isNothing v then none_tag else some_tag), slot_value := v\<rparr>"

definition replaceValue :: "'a slot \<Rightarrow> 'a Option_obj \<Rightarrow> 'a slot \<times> 'a Option_obj" where
  "replaceValue newValue this = (let oldValue = slot_value this in (oldValue, setValue newValue this))"

definition takeValue :: "'a Option_obj \<Rightarrow> 'a slot \<times> 'a Option_obj" where
  "takeValue this = replaceValue nothing this"

text \<open>
  The private constructor tests \<open>arguments.length > 0\<close>: the argument is an
  \<open>option\<close> here, \<open>None\<close> for a call without arguments. \<open>some(undefined)\<close> passes one
  argument, so it is \<open>new_Option (Some undefined)\<close>.
\<close>

definition new_Option :: "'a option \<Rightarrow> 'a Option_obj" where
  "new_Option arg = (case arg of None \<Rightarrow> fresh_fields | Some v \<Rightarrow> setValue (Held v) fresh_fields)"

definition some :: "'a \<Rightarrow> 'a Option_obj" where
  "some v = new_Option (Some v)"

definition none :: "'a Option_obj" where
  "none = new_Option None"

definition isNone :: "'a Option_obj \<Rightarrow> bool" where
  "isNone this = (slot_value this = nothing)"

definition isSome :: "'a Option_obj \<Rightarrow> bool" where
  "isSome this = (\<not> isNone this)"

text \<open>The getter \<open>value\<close>: a throw is the left summand.\<close>

definition get_value :: "'a Option_obj \<Rightarrow> 'x thrown + 'a" where
  "get_value this =
     (case slot_value this of
        nothing \<Rightarrow> Inl (AnyError ''`value` is accessed on `None`'' NoneValueAccessed None)
      | Held v \<Rightarrow> Inr v)"

definition unwrap :: "'a Option_obj \<Rightarrow> 'x thrown + 'a" where
  "unwrap this =
     (if isSome this then get_value this
      else Inl (AnyError ''`unwrap` is called on `None`'' NoneUnwrapped None))"

definition clone :: "'a Option_obj \<Rightarrow> 'x thrown + 'a Option_obj" where
  "clone this =
     (if isNone this then Inr none
      else (case get_value this of Inl e \<Rightarrow> Inl e | Inr v \<Rightarrow> Inr (some v)))"

section \<open>Combinators that take a callback\<close>

text \<open>
  A callback may have side effects and may throw. It is a function on a world \<open>'w\<close> of
  what it can reach: it returns the thrown value (\<open>Inl\<close>) or its result (\<open>Inr\<close>),
  and the world it leaves. A method returns its own outcome and the world after it; a
  method that never calls the callback leaves the world as it was, whatever the callback
  is. The methods of this section do not write to the container, and the container is
  not threaded through their callbacks.
\<close>

definition isNoneOr :: "('a \<Rightarrow> 'w \<Rightarrow> ('x thrown + bool) \<times> 'w) \<Rightarrow> 'a Option_obj \<Rightarrow> 'w
    \<Rightarrow> ('x thrown + bool) \<times> 'w" where
  "isNoneOr f this w =
     (if isNone this then (Inr True, w)
      else (case (get_value this :: 'x thrown + 'a) of
              Inl e \<Rightarrow> (Inr False, w)
            | Inr v \<Rightarrow> (case f v w of
                         (Inl e, w') \<Rightarrow> (Inr False, w')
                       | (Inr b, w') \<Rightarrow> (Inr b, w'))))"

definition isSomeAnd :: "('a \<Rightarrow> 'w \<Rightarrow> ('x thrown + bool) \<times> 'w) \<Rightarrow> 'a Option_obj \<Rightarrow> 'w
    \<Rightarrow> ('x thrown + bool) \<times> 'w" where
  "isSomeAnd f this w =
     (if isSome this then (Inr True, w)
      else (case (get_value this :: 'x thrown + 'a) of
              Inl e \<Rightarrow> (Inr False, w)
            | Inr v \<Rightarrow> (case f v w of
                         (Inl e, w') \<Rightarrow> (Inr False, w')
                       | (Inr b, w') \<Rightarrow> (Inr b, w'))))"

definition map_opt :: "('a \<Rightarrow> 'w \<Rightarrow> ('x thrown + 'b) \<times> 'w) \<Rightarrow> 'a Option_obj \<Rightarrow> 'w
    \<Rightarrow> ('x thrown + 'b Option_obj) \<times> 'w" where
  "map_opt f this w =
     (if isNone this then (Inr none, w)
      else (case (get_value this :: 'x thrown + 'a) of
              Inl e \<Rightarrow> (Inr none, w)
            | Inr v \<Rightarrow> (case f v w of
                         (Inl e, w') \<Rightarrow> (Inr none, w')
                       | (Inr u, w') \<Rightarrow> (Inr (some u), w'))))"

text \<open>
  \<open>filter\<close> reads \<open>this.value\<close> a second time, after the predicate has returned, still
  inside the \<open>try\<close>.
\<close>

definition filter_opt :: "('a \<Rightarrow> 'w \<Rightarrow> ('x thrown + bool) \<times> 'w) \<Rightarrow> 'a Option_obj \<Rightarrow> 'w
    \<Rightarrow> ('x thrown + 'a Option_obj) \<times> 'w" where
  "filter_opt f this w =
     (if isNone this then (Inr none, w)
      else (case (get_value this :: 'x thrown + 'a) of
              Inl e \<Rightarrow> (Inr none, w)
            | Inr v \<Rightarrow> (case f v w of
                         (Inl e, w') \<Rightarrow> (Inr none, w')
                       | (Inr b, w') \<Rightarrow>
                           (if b
                            then (case (get_value this :: 'x thrown + 'a) of
                                    Inl e \<Rightarrow> (Inr none, w')
                                  | Inr v' \<Rightarrow> (Inr (some v'), w'))
                            else (Inr none, w')))))"

text \<open>
  The callback of \<open>andThen\<close> returns an \<open>Option\<close> or a promise of one
  (\<open>MaybePromise\<close>, from \<open>../types\<close>); \<open>isPromise\<close> tells them apart and
  \<open>pendingOption\<close> (from \<open>./index\<close>, a parameter here) wraps the promise.
\<close>

datatype ('o, 'p) MaybePromise = Settled 'o | Promise 'p

datatype ('b, 'q) MaybePendingOption = IsOption "'b Option_obj" | IsPendingOption 'q

fun isPromise :: "('o, 'p) MaybePromise \<Rightarrow> bool" where
  "isPromise (Settled x) = False"
| "isPromise (Promise p) = True"

definition andThen :: "('p \<Rightarrow> 'q)
    \<Rightarrow> ('a \<Rightarrow> 'w \<Rightarrow> ('x thrown + ('b Option_obj, 'p) MaybePromise) \<times> 'w)
    \<Rightarrow> 'a Option_obj \<Rightarrow> 'w \<Rightarrow> ('x thrown + ('b, 'q) MaybePendingOption) \<times> 'w" where
  "andThen pendingOption f this w =
     (if isNone this then (Inr (IsOption none), w)
      else (case (get_value this :: 'x thrown + 'a) of
              Inl e \<Rightarrow> (Inr (IsOption none), w)
            | Inr v \<Rightarrow> (case f v w of
                         (Inl e, w') \<Rightarrow> (Inr (IsOption none), w')
                       | (Inr (Promise p), w') \<Rightarrow> (Inr (IsPendingOption (pendingOption p)), w')
                       | (Inr (Settled option), w') \<Rightarrow> (Inr (IsOption option), w'))))"

section \<open>Callbacks that write to the container\<close>

text \<open>
  A callback can hold a reference to the container it is called from and call its
  methods: \<open>x.takeIf(() => { x.take(); return true })\<close>. The fields are private to
  the class (\<open>#value\<close>) and to the module (\<open>[phantom]\<close>), and every assignment to them
  is in \<open>#setValue\<close>; so what a callback does to the container is a sequence of
  \<open>#setValue\<close> steps. For \<open>inspect\<close>, \<open>getOrInsertWith\<close> and \<open>takeIf\<close>, which
  read or write the container after the callback has returned, a callback is given the
  container as it is when called, and returns, with its outcome and the world, the list
  of the values that its calls wrote to the container's slot, in order (\<open>[]\<close> for a
  callback that leaves the container alone).
\<close>

definition written :: "'a slot list \<Rightarrow> 'a Option_obj \<Rightarrow> 'a Option_obj" where
  "written ws this = foldl (\<lambda>obj v. setValue v obj) this ws"

text \<open>
  \<open>inspect\<close>: the call of \<open>f\<close> is inside the \<open>try\<close>, the final
  \<open>some(this.value)\<close> is not, and reads the container as \<open>f\<close> left it.
\<close>

definition inspect :: "('a \<Rightarrow> 'a Option_obj \<Rightarrow> 'w \<Rightarrow> ('x thrown + 'r) \<times> 'a slot list \<times> 'w)
    \<Rightarrow> 'a Option_obj \<Rightarrow> 'w \<Rightarrow> ('x thrown + 'a Option_obj) \<times> 'a Option_obj \<times> 'w" where
  "inspect f this w =
     (case (if isSome this
            then (case (get_value this :: 'x thrown + 'a) of
                    Inl e \<Rightarrow> (this, w)
                  | Inr v \<Rightarrow> (case f v this w of (r, ws, w') \<Rightarrow> (written ws this, w')))
            else (this, w)) of
        (this1, w1) \<Rightarrow>
          (case get_value this1 of
             Inl e \<Rightarrow> (Inl e, this1, w1)
           | Inr v \<Rightarrow> (Inr (some v), this1, w1)))"

section \<open>Mutating operations\<close>

text \<open>
  A mutating method returns its outcome and the object as it leaves it (and the world,
  when it takes a callback).
\<close>

definition insert_opt :: "'a \<Rightarrow> 'a Option_obj \<Rightarrow> ('x thrown + 'a) \<times> 'a Option_obj" where
  "insert_opt x this = (let this' = setValue (Held x) this in (get_value this', this'))"

definition getOrInsert :: "'a \<Rightarrow> 'a Option_obj \<Rightarrow> ('x thrown + 'a) \<times> 'a Option_obj" where
  "getOrInsert x this =
     (let this' = (if isNone this then setValue (Held x) this else this)
      in (get_value this', this'))"

definition getOrInsertWith :: "('x thrown \<Rightarrow> string)
    \<Rightarrow> ('a Option_obj \<Rightarrow> 'w \<Rightarrow> ('x thrown + 'a) \<times> 'a slot list \<times> 'w)
    \<Rightarrow> 'a Option_obj \<Rightarrow> 'w \<Rightarrow> ('x thrown + 'a) \<times> 'a Option_obj \<times> 'w" where
  "getOrInsertWith stringify f this w =
     (if isNone this
      then (case f this w of
              (Inl e, ws, w') \<Rightarrow>
                (Inl (mkAnyError stringify ''getOrInsertWith callback threw an exception''
                        PredicateException e), written ws this, w')
            | (Inr v, ws, w') \<Rightarrow>
                (let this' = setValue (Held v) (written ws this) in (get_value this', this', w')))
      else (get_value this, this, w))"

text \<open>The synchronous \<open>replace\<close> (its argument is not a promise).\<close>

definition replace :: "'a \<Rightarrow> 'a Option_obj \<Rightarrow> 'a Option_obj \<times> 'a Option_obj" where
  "replace x this =
     (case replaceValue (Held x) this of
        (old, this') \<Rightarrow> ((case old of nothing \<Rightarrow> none | Held v \<Rightarrow> some v), this'))"

definition take_opt :: "'a Option_obj \<Rightarrow> 'a Option_obj \<times> 'a Option_obj" where
  "take_opt this =
     (if isNone this then (none, this)
      else (case takeValue this of
              (old, this') \<Rightarrow> ((case old of nothing \<Rightarrow> none | Held v \<Rightarrow> some v), this')))"

text \<open>
  \<open>takeIf\<close>: \<open>#takeValue()\<close> reads the slot after the predicate has returned, and
  the method tests what it read: \<open>isNothing(value) ? none() : some(value)\<close>.
\<close>

definition takeIf :: "('a \<Rightarrow> 'a Option_obj \<Rightarrow> 'w \<Rightarrow> ('x thrown + bool) \<times> 'a slot list \<times> 'w)
    \<Rightarrow> 'a Option_obj \<Rightarrow> 'w \<Rightarrow> ('x thrown + 'a Option_obj) \<times> 'a Option_obj \<times> 'w" where
  "takeIf f this w =
     (if isNone this then (Inr none, this, w)
      else (case (get_value this :: 'x thrown + 'a) of
              Inl e \<Rightarrow> (Inr none, this, w)
            | Inr v \<Rightarrow> (case f v this w of
                         (Inl e, ws, w') \<Rightarrow> (Inr none, written ws this, w')
                       | (Inr b, ws, w') \<Rightarrow>
                           (if b
                            then (case takeValue (written ws this) of
                                    (old, this') \<Rightarrow>
                                      (Inr (case old of nothing \<Rightarrow> none | Held x \<Rightarrow> some x),
                                       this', w'))
                            else (Inr none, written ws this, w')))))"

text \<open>
  All the mutating methods, as one datatype of calls, and the state of the object after
  a call. \<open>Settle\<close> is the reaction that the deferred \<open>replace\<close> below registers.
\<close>

datatype ('a, 'r) settlement = Fulfilled 'a | Rejected 'r

text \<open>
  The reactions of \<open>x.then((val) => { this.#setValue(val); }, noop)\<close>. Modelled from the
  spec: \<open>noop\<close> is imported from \<open>../__internal\<close>; the spec calls it a no-op failure
  handler.
\<close>

definition on_settled :: "('a, 'r) settlement \<Rightarrow> 'a Option_obj \<Rightarrow> 'a Option_obj" where
  "on_settled s this = (case s of Fulfilled val \<Rightarrow> setValue (Held val) this | Rejected reason \<Rightarrow> this)"

datatype ('a, 'x, 'r, 'w) mutation =
    Insert 'a
  | GetOrInsert 'a
  | GetOrInsertWith "'a Option_obj \<Rightarrow> 'w \<Rightarrow> ('x thrown + 'a) \<times> 'a slot list \<times> 'w" 'w
  | Replace 'a
  | Take
  | TakeIf "'a \<Rightarrow> 'a Option_obj \<Rightarrow> 'w \<Rightarrow> ('x thrown + bool) \<times> 'a slot list \<times> 'w" 'w
  | Settle "('a, 'r) settlement"

definition apply_mutation :: "('x thrown \<Rightarrow> string) \<Rightarrow> ('a, 'x, 'r, 'w) mutation \<Rightarrow> 'a Option_obj \<Rightarrow> 'a Option_obj" where
  "apply_mutation stringify m this =
     (case m of
        Insert x \<Rightarrow> snd (insert_opt x this :: ('x thrown + 'a) \<times> 'a Option_obj)
      | GetOrInsert x \<Rightarrow> snd (getOrInsert x this :: ('x thrown + 'a) \<times> 'a Option_obj)
      | GetOrInsertWith f w \<Rightarrow> fst (snd (getOrInsertWith stringify f this w))
      | Replace x \<Rightarrow> snd (replace x this)
      | Take \<Rightarrow> snd (take_opt this)
      | TakeIf f w \<Rightarrow> fst (snd (takeIf f this w))
      | Settle s \<Rightarrow> on_settled s this)"

definition phantom_agrees :: "'a Option_obj \<Rightarrow> bool" where
  "phantom_agrees this = ((phantom this = some_tag) = (slot_value this \<noteq> nothing))"

section \<open>The deferred replace\<close>

text \<open>
  \<open>replace(x)\<close> with a promise \<open>x\<close> returns a second object (the clone) and a promise
  that writes to \<open>this\<close> later, so the objects live in a store: a list of objects, an
  object's address being its index. \<open>new _Option\<close> allocates at the end.

  Modelled from the spec: the promise is JavaScript's. Its reactions never run inside
  the call that registers them, and exactly one of them runs, once, when \<open>x\<close> settles.
  The promise returned by \<open>then\<close> is modelled by what its settling does to the store at
  that moment.
\<close>

type_synonym 'a store = "'a Option_obj list"

definition alloc :: "'a Option_obj \<Rightarrow> 'a store \<Rightarrow> nat \<times> 'a store" where
  "alloc obj h = (length h, h @ [obj])"

definition then_setValue :: "nat \<Rightarrow> ('a, 'r) settlement \<Rightarrow> 'a store \<Rightarrow> 'a store" where
  "then_setValue this s h =
     (case s of
        Fulfilled val \<Rightarrow> h[this := setValue (Held val) (h ! this)]
      | Rejected reason \<Rightarrow> h)"

definition replace_promise :: "nat \<Rightarrow> 'a store
    \<Rightarrow> ('x thrown + nat \<times> (('a, 'r) settlement \<Rightarrow> 'a store \<Rightarrow> 'a store)) \<times> 'a store" where
  "replace_promise this h =
     (let promise = then_setValue this
      in (case clone (h ! this) of
            Inl e \<Rightarrow> (Inl e, h)
          | Inr snapshot \<Rightarrow> (case alloc snapshot h of (a, h') \<Rightarrow> (Inr (a, promise), h'))))"

section \<open>Conversion to a Result\<close>

text \<open>
  Modelled from the spec: \<open>Result\<close>, \<open>ok\<close>, \<open>err\<close> and the guard \<open>isResult\<close> are
  imported from \<open>../result\<close> and \<open>../__internal\<close>: a sum type with the variants
  \<open>Ok(v)\<close> and \<open>Err(e)\<close>, and a guard that holds of exactly the Results.
  The type of \<open>transposeResult\<close> asks for a contained Result, and the method tests it
  at run time again; the contained value is a Result or a value that is none.
\<close>

datatype ('v, 'e) Result = Ok 'v | Err 'e

datatype ('v, 'e) content = IsResult "('v, 'e) Result" | NotResult 'v

fun isResult :: "('v, 'e) content \<Rightarrow> bool" where
  "isResult (IsResult r) = True"
| "isResult (NotResult y) = False"

text \<open>The last case is behind the guard \<open>!isResult(this.value)\<close> and never reached.\<close>

definition transposeResult :: "('v, 'e) content Option_obj \<Rightarrow> 'x thrown + ('v Option_obj, 'e) Result" where
  "transposeResult this =
     (if isNone this then Inr (Ok none)
      else (case get_value this of
              Inl e \<Rightarrow> Inl e
            | Inr x \<Rightarrow>
                (if \<not> isResult x then Inr (Ok none)
                 else (case x of
                         IsResult (Ok v) \<Rightarrow> Inr (Ok (some v))
                       | IsResult (Err e) \<Rightarrow> Inr (Err e)
                       | NotResult y \<Rightarrow> Inr (Ok none)))))"

section \<open>Evaluation of the basic operations\<close>

lemmas opt_defs = isSome_def isNone_def get_value_def some_def none_def new_Option_def
  setValue_def fresh_fields_def isNothing_def replaceValue_def takeValue_def

text \<open>
  A callback that wrote nothing leaves the object as it was, and \<open>#setValue\<close> overwrites
  whatever earlier writes left: a sequence of writes is no write or one.
\<close>

lemma written_Nil: "written [] this = this"
  by (simp add: written_def)

lemma setValue_setValue: "setValue v (setValue u this) = setValue v this"
  by (simp add: setValue_def)

lemma setValue_written: "setValue v (written ws this) = setValue v this"
  by (induction ws arbitrary: this) (simp_all add: written_def setValue_setValue)

lemma written_cases: "written ws this = this \<or> (\<exists>v. written ws this = setValue v this)"
proof (induction ws rule: rev_induct)
  case Nil
  then show ?case by (simp add: written_def)
next
  case (snoc x xs)
  have "written (xs @ [x]) this = setValue x (written xs this)"
    by (simp add: written_def)
  then have "written (xs @ [x]) this = setValue x this"
    by (simp add: setValue_written)
  then show ?case by blast
qed

section \<open>Construction and extraction\<close>

text \<open>
  C8. For every value \<open>v\<close> of every type (so also \<open>null\<close> and \<open>undefined\<close>), \<open>some v\<close>
  reports occupied: \<open>isSome\<close> holds, \<open>isNone\<close> does not, and \<open>unwrap\<close> returns exactly
  \<open>v\<close> without throwing.
\<close>

theorem some_occupied_unwrap:
  "isSome (some v) \<and> isNone (some v) = False \<and> unwrap (some v) = Inr v"
  by (simp add: unwrap_def opt_defs)

section \<open>Queries with a predicate\<close>

text \<open>
  \<open>inspect\<close> on an occupied container calls \<open>f\<close> once on the contained value and drops
  what \<open>f\<close> returns or throws; when \<open>f\<close> leaves the container alone, the method
  returns an occupied container with the same value.
\<close>

lemma inspect_occupied:
  "slot_value this = Held v \<Longrightarrow> f v this w = (r, [], w') \<Longrightarrow>
     inspect f this w = (Inr (some v), this, w')"
  by (simp add: inspect_def written_Nil opt_defs)

text \<open>
  C1. \<open>inspect\<close> is claimed never to let an exception reach the caller and to return
  an empty container for an empty one. On an empty container the method skips \<open>f\<close>
  (the container and the world are left as they were) and then evaluates
  \<open>some(this.value)\<close>: the getter throws \<open>NoneValueAccessed\<close> outside any \<open>try\<close>, and
  that reaches the caller.
\<close>

theorem inspect_none_throws:
  "inspect f none w
     = (Inl (AnyError ''`value` is accessed on `None`'' NoneValueAccessed None), none, w)"
  by (simp add: inspect_def opt_defs)

text \<open>
  The same read fails on an occupied container whose callback empties it:
  \<open>x.inspect(() => { x.take() })\<close> at \<open>some(2)\<close>.
\<close>

lemma inspect_callback_empties:
  "inspect (\<lambda>v this w. (Inr (), [nothing], w)) (some (2::int)) ()
     = (Inl (AnyError ''`value` is accessed on `None`'' NoneValueAccessed None), none, ())"
  by (simp add: inspect_def written_def opt_defs)

text \<open>
  \<open>isSomeAnd\<close> never consults its predicate: its outcome is \<open>isSome\<close>, and the world
  is left as it was.
\<close>

lemma isSomeAnd_is_isSome: "isSomeAnd f this w = (Inr (isSome this), w)"
  by (simp add: isSomeAnd_def opt_defs split: slot.splits)

text \<open>
  C2. \<open>isSomeAnd f\<close> is claimed to be false on an occupied container when \<open>f\<close>
  returns false or throws. On every occupied container the method returns true before
  \<open>f\<close> is looked at, whatever \<open>f\<close> is.
\<close>

theorem isSomeAnd_occupied_ignores_predicate:
  "isSomeAnd f (some v) w = (Inr True, w)"
  by (simp add: isSomeAnd_def opt_defs)

text \<open>
  C3, as amended. \<open>isNoneOr f\<close> is true on an empty container (and \<open>f\<close> is not
  called); on an occupied one it is what \<open>f\<close> returns for the contained value, and
  false when \<open>f\<close> throws.
\<close>

theorem isNoneOr_cases:
  "(isNone this \<longrightarrow> isNoneOr f this w = (Inr True, w)) \<and>
   (\<forall>v b w'. slot_value this = Held v \<longrightarrow> f v w = (Inr b, w') \<longrightarrow>
       isNoneOr f this w = (Inr b, w')) \<and>
   (\<forall>v e w'. slot_value this = Held v \<longrightarrow> f v w = (Inl e, w') \<longrightarrow>
       isNoneOr f this w = (Inr False, w'))"
  by (simp add: isNoneOr_def isNone_def get_value_def)

text \<open>The three cases at \<open>none\<close> and \<open>some(2)\<close>, with predicates that count their calls in the world.\<close>

theorem isNoneOr_cases_witness:
  "isNoneOr (\<lambda>n w. (Inr (0 < n) :: unit thrown + bool, Suc w)) (none :: int Option_obj) (0::nat)
     = (Inr True, 0) \<and>
   isNoneOr (\<lambda>n w. (Inr (n < 0) :: unit thrown + bool, Suc w)) (some (2::int)) (0::nat)
     = (Inr False, 1) \<and>
   isNoneOr (\<lambda>n w. (Inl (JsError ''boom'') :: unit thrown + bool, Suc w)) (some (2::int)) (0::nat)
     = (Inr False, 1)"
proof -
  have e: "isNone (none :: int Option_obj)" by (simp add: opt_defs)
  have o: "slot_value (some (2::int)) = Held 2" by (simp add: opt_defs)
  let ?pos = "\<lambda>(n::int) (w::nat). (Inr (0 < n) :: unit thrown + bool, Suc w)"
  let ?neg = "\<lambda>(n::int) (w::nat). (Inr (n < 0) :: unit thrown + bool, Suc w)"
  let ?boom = "\<lambda>(n::int) (w::nat). (Inl (JsError ''boom'') :: unit thrown + bool, Suc w)"
  have 1: "isNoneOr ?pos none 0 = (Inr True, 0)"
    using isNoneOr_cases [of none ?pos 0] e by blast
  have "?neg 2 0 = (Inr False, 1)" by simp
  with o have 2: "isNoneOr ?neg (some 2) 0 = (Inr False, 1)"
    using isNoneOr_cases [of "some 2" ?neg 0] by blast
  have "?boom 2 0 = (Inl (JsError ''boom''), 1)" by simp
  with o have 3: "isNoneOr ?boom (some 2) 0 = (Inr False, 1)"
    using isNoneOr_cases [of "some 2" ?boom 0] by blast
  from 1 2 3 show ?thesis by (intro conjI)
qed

text \<open>
  C3 as stated says that a throwing \<open>f\<close> makes \<open>isNoneOr\<close> true. On \<open>some(2)\<close>
  with a predicate that throws, the outcome is not true.
\<close>

theorem isNoneOr_throw_counterexample:
  "fst (isNoneOr (\<lambda>n w. (Inl (JsError ''boom''), w)) (some (2::int)) ())
     \<noteq> (Inr True :: unit thrown + bool)"
  by (simp add: isNoneOr_def opt_defs)

section \<open>Callbacks that throw\<close>

text \<open>
  C7. For \<open>map\<close>, \<open>filter\<close> and \<open>andThen\<close>: when the callback throws on the
  contained value, whatever it throws, the outcome is the empty container; and in no
  case at all (empty or occupied, returning or throwing callback) does the method
  throw.
\<close>

theorem callback_throw_gives_none:
  "(\<forall>v e w'. slot_value this = Held v \<longrightarrow> f v w = (Inl e, w') \<longrightarrow>
       map_opt f this w = (Inr none, w')) \<and>
   (\<forall>v e w'. slot_value this = Held v \<longrightarrow> p v w = (Inl e, w') \<longrightarrow>
       filter_opt p this w = (Inr none, w')) \<and>
   (\<forall>v e w'. slot_value this = Held v \<longrightarrow> g v w = (Inl e, w') \<longrightarrow>
       andThen pendingOption g this w = (Inr (IsOption none), w')) \<and>
   (\<exists>r. fst (map_opt f this w) = Inr r) \<and>
   (\<exists>r. fst (filter_opt p this w) = Inr r) \<and>
   (\<exists>r. fst (andThen pendingOption g this w) = Inr r)"
proof -
  have m: "\<exists>r. fst (map_opt f this w) = Inr r"
    by (simp add: map_opt_def isNone_def get_value_def split: slot.splits sum.splits prod.splits)
  have fl: "\<exists>r. fst (filter_opt p this w) = Inr r"
    by (simp add: filter_opt_def isNone_def get_value_def split: slot.splits sum.splits prod.splits)
  have a: "\<exists>r. fst (andThen pendingOption g this w) = Inr r"
    by (simp add: andThen_def isNone_def get_value_def
        split: slot.splits sum.splits prod.splits MaybePromise.splits)
  show ?thesis using m fl a
    by (simp add: map_opt_def filter_opt_def andThen_def isNone_def get_value_def)
qed

text \<open>At \<open>some(2)\<close>, with callbacks that throw a non-error value, an \<open>Error\<close> and an \<open>AnyError\<close>.\<close>

theorem callback_throw_gives_none_witness:
  "map_opt (\<lambda>(n::int) (w::nat). (Inl (Thrown ()) :: unit thrown + int, Suc w)) (some 2) 0
     = (Inr none, 1) \<and>
   filter_opt (\<lambda>(n::int) (w::nat). (Inl (JsError ''boom'') :: unit thrown + bool, Suc w)) (some 2) 0
     = (Inr none, 1) \<and>
   andThen (\<lambda>p::unit. p)
       (\<lambda>(n::int) (w::nat).
          (Inl (AnyError ''inner'' NoneExpected None) :: unit thrown + (int Option_obj, unit) MaybePromise,
           Suc w))
       (some 2) 0
     = (Inr (IsOption none), 1)"
proof -
  let ?f = "\<lambda>(n::int) (w::nat). (Inl (Thrown ()) :: unit thrown + int, Suc w)"
  let ?p = "\<lambda>(n::int) (w::nat). (Inl (JsError ''boom'') :: unit thrown + bool, Suc w)"
  let ?g = "\<lambda>(n::int) (w::nat).
      (Inl (AnyError ''inner'' NoneExpected None) :: unit thrown + (int Option_obj, unit) MaybePromise, Suc w)"
  have o: "slot_value (some (2::int)) = Held 2" by (simp add: opt_defs)
  have f0: "?f 2 0 = (Inl (Thrown ()), 1)" and p0: "?p 2 0 = (Inl (JsError ''boom''), 1)"
    and g0: "?g 2 0 = (Inl (AnyError ''inner'' NoneExpected None), 1)"
    by simp_all
  note t = callback_throw_gives_none [of "some 2" ?f 0 ?p ?g "\<lambda>p::unit. p"]
  have 1: "map_opt ?f (some 2) 0 = (Inr none, 1)"
    using t [THEN conjunct1, rule_format, OF o f0] .
  have 2: "filter_opt ?p (some 2) 0 = (Inr none, 1)"
    using t [THEN conjunct2, THEN conjunct1, rule_format, OF o p0] .
  have 3: "andThen (\<lambda>p::unit. p) ?g (some 2) 0 = (Inr (IsOption none), 1)"
    using t [THEN conjunct2, THEN conjunct2, THEN conjunct1, rule_format, OF o g0] .
  from 1 2 3 show ?thesis by (intro conjI)
qed

section \<open>transposeResult\<close>

text \<open>
  C4, as amended. An empty container maps to \<open>Ok(none)\<close>, an occupied \<open>Ok(v)\<close> to
  \<open>Ok(some(v))\<close>, an occupied \<open>Err(e)\<close> to \<open>Err(e)\<close>, and an occupied value that
  is not a Result to \<open>Ok(none)\<close>.
\<close>

theorem transposeResult_cases:
  "(isNone this \<longrightarrow> transposeResult this = Inr (Ok none)) \<and>
   (\<forall>v. slot_value this = Held (IsResult (Ok v)) \<longrightarrow> transposeResult this = Inr (Ok (some v))) \<and>
   (\<forall>e. slot_value this = Held (IsResult (Err e)) \<longrightarrow> transposeResult this = Inr (Err e)) \<and>
   (\<forall>y. slot_value this = Held (NotResult y) \<longrightarrow> transposeResult this = Inr (Ok none))"
  by (simp add: transposeResult_def isNone_def get_value_def)

text \<open>The four cases at \<open>none\<close>, \<open>some(Ok(2))\<close>, \<open>some(Err("e"))\<close> and \<open>some(7)\<close>.\<close>

theorem transposeResult_cases_witness:
  "transposeResult (none :: (nat, string) content Option_obj)
     = (Inr (Ok none) :: unit thrown + (nat Option_obj, string) Result) \<and>
   transposeResult (some (IsResult (Ok (2::nat)) :: (nat, string) content))
     = (Inr (Ok (some 2)) :: unit thrown + (nat Option_obj, string) Result) \<and>
   transposeResult (some (IsResult (Err ''e'') :: (nat, string) content))
     = (Inr (Err ''e'') :: unit thrown + (nat Option_obj, string) Result) \<and>
   transposeResult (some (NotResult (7::nat) :: (nat, string) content))
     = (Inr (Ok none) :: unit thrown + (nat Option_obj, string) Result)"
proof -
  have e: "isNone (none :: (nat, string) content Option_obj)" by (simp add: opt_defs)
  have o: "\<And>c :: (nat, string) content. slot_value (some c) = Held c" by (simp add: opt_defs)
  have 1: "transposeResult (none :: (nat, string) content Option_obj)
      = (Inr (Ok none) :: unit thrown + (nat Option_obj, string) Result)"
    using transposeResult_cases [of "none :: (nat, string) content Option_obj"] e by blast
  have 2: "transposeResult (some (IsResult (Ok (2::nat)) :: (nat, string) content))
      = (Inr (Ok (some 2)) :: unit thrown + (nat Option_obj, string) Result)"
    using transposeResult_cases [of "some (IsResult (Ok (2::nat)) :: (nat, string) content)"] o by blast
  have 3: "transposeResult (some (IsResult (Err ''e'') :: (nat, string) content))
      = (Inr (Err ''e'') :: unit thrown + (nat Option_obj, string) Result)"
    using transposeResult_cases [of "some (IsResult (Err ''e'') :: (nat, string) content)"] o by blast
  have 4: "transposeResult (some (NotResult (7::nat) :: (nat, string) content))
      = (Inr (Ok none) :: unit thrown + (nat Option_obj, string) Result)"
    using transposeResult_cases [of "some (NotResult (7::nat) :: (nat, string) content)"] o by blast
  from 1 2 3 4 show ?thesis by (intro conjI)
qed

text \<open>
  C4 as stated says that an occupied value that is not a Result maps to
  \<open>Ok(some(value))\<close>. For the contained value 7 it does not.
\<close>

theorem transposeResult_fallback_counterexample:
  "transposeResult (some (NotResult (7::nat) :: (nat, string) content))
     \<noteq> (Inr (Ok (some 7)) :: unit thrown + (nat Option_obj, string) Result)"
  by (simp add: transposeResult_def opt_defs)

section \<open>getOrInsertWith\<close>

text \<open>
  C5, as amended. On an empty container whose callback throws \<open>e\<close>, the method
  itself writes nothing: the object is left as the callback left it, so still empty
  when the callback did not write to it. The method throws an \<open>AnyError\<close> with the
  reason \<open>PredicateException\<close> whose original error is \<open>e\<close> when \<open>e\<close> is an
  \<open>Error\<close> (an \<open>AnyError\<close> included) and \<open>new Error(stringify(e))\<close> otherwise.
\<close>

theorem getOrInsertWith_throw:
  "(\<forall>ws. isNone this \<longrightarrow> f this w = (Inl e, ws, w') \<longrightarrow>
      getOrInsertWith stringify f this w =
        (Inl (AnyError ''getOrInsertWith callback threw an exception'' PredicateException
                (Some (if instanceofError e then e else JsError (stringify e)))),
         written ws this, w')) \<and>
   (isNone this \<longrightarrow> f this w = (Inl e, [], w') \<longrightarrow>
      getOrInsertWith stringify f this w =
        (Inl (AnyError ''getOrInsertWith callback threw an exception'' PredicateException
                (Some (if instanceofError e then e else JsError (stringify e)))),
         this, w'))"
  by (simp add: getOrInsertWith_def mkAnyError_def written_Nil)

text \<open>
  At \<open>none\<close>: a callback that throws \<open>undefined\<close>; one that throws an \<open>AnyError\<close>,
  which is wrapped as well; and \<open>z.getOrInsertWith(() => { z.insert(1); throw new Error("x") })\<close>,
  which leaves \<open>z\<close> as \<open>some(1)\<close>.
\<close>

theorem getOrInsertWith_throw_witness:
  "getOrInsertWith (\<lambda>u::unit thrown. ''undefined'')
       (\<lambda>(this::int Option_obj) (w::nat). (Inl (Thrown ()), [], Suc w)) none 0
     = (Inl (AnyError ''getOrInsertWith callback threw an exception'' PredicateException
               (Some (JsError ''undefined''))), none, 1) \<and>
   getOrInsertWith (\<lambda>u::unit thrown. ''undefined'')
       (\<lambda>(this::int Option_obj) (w::nat). (Inl (AnyError ''inner'' NoneUnwrapped None), [], Suc w)) none 0
     = (Inl (AnyError ''getOrInsertWith callback threw an exception'' PredicateException
               (Some (AnyError ''inner'' NoneUnwrapped None))), none, 1) \<and>
   getOrInsertWith (\<lambda>u::unit thrown. ''undefined'')
       (\<lambda>(this::int Option_obj) (w::nat). (Inl (JsError ''x''), [Held 1], Suc w)) none 0
     = (Inl (AnyError ''getOrInsertWith callback threw an exception'' PredicateException
               (Some (JsError ''x''))), some 1, 1)"
proof -
  have e: "isNone (none :: int Option_obj)" by (simp add: opt_defs)
  let ?s = "\<lambda>u::unit thrown. ''undefined''"
  let ?f = "\<lambda>(this::int Option_obj) (w::nat). (Inl (Thrown ()) :: unit thrown + int, [] :: int slot list, Suc w)"
  let ?g = "\<lambda>(this::int Option_obj) (w::nat).
      (Inl (AnyError ''inner'' NoneUnwrapped None) :: unit thrown + int, [] :: int slot list, Suc w)"
  let ?h = "\<lambda>(this::int Option_obj) (w::nat). (Inl (JsError ''x'') :: unit thrown + int, [Held (1::int)], Suc w)"
  have f0: "?f none 0 = (Inl (Thrown ()), [], 1)"
    and g0: "?g none 0 = (Inl (AnyError ''inner'' NoneUnwrapped None), [], 1)"
    and h0: "?h none 0 = (Inl (JsError ''x''), [Held 1], 1)"
    by simp_all
  have wr: "written [Held (1::int)] none = some 1" by (simp add: written_def opt_defs)
  have 1: "getOrInsertWith ?s ?f none 0
     = (Inl (AnyError ''getOrInsertWith callback threw an exception'' PredicateException
               (Some (if instanceofError (Thrown () :: unit thrown) then Thrown ()
                      else JsError (?s (Thrown ()))))), none, 1)"
    using getOrInsertWith_throw [of none ?f 0 "Thrown ()" 1 ?s, THEN conjunct2, rule_format, OF e f0] .
  have 2: "getOrInsertWith ?s ?g none 0
     = (Inl (AnyError ''getOrInsertWith callback threw an exception'' PredicateException
               (Some (if instanceofError (AnyError ''inner'' NoneUnwrapped None :: unit thrown)
                      then AnyError ''inner'' NoneUnwrapped None
                      else JsError (?s (AnyError ''inner'' NoneUnwrapped None))))), none, 1)"
    using getOrInsertWith_throw [of none ?g 0 "AnyError ''inner'' NoneUnwrapped None" 1 ?s,
        THEN conjunct2, rule_format, OF e g0] .
  have 3: "getOrInsertWith ?s ?h none 0
     = (Inl (AnyError ''getOrInsertWith callback threw an exception'' PredicateException
               (Some (if instanceofError (JsError ''x'' :: unit thrown) then JsError ''x''
                      else JsError (?s (JsError ''x''))))), written [Held 1] none, 1)"
    using getOrInsertWith_throw [of none ?h 0 "JsError ''x''" 1 ?s,
        THEN conjunct1, rule_format, OF e h0] .
  from 1 2 3 wr show ?thesis by simp
qed

text \<open>
  C5 as stated says that a thrown taxonomy error is rethrown unmodified. When the
  callback throws an \<open>AnyError\<close> with the reason \<open>NoneUnwrapped\<close>, what the method
  throws is not that error.
\<close>

theorem getOrInsertWith_rethrow_counterexample:
  "fst (getOrInsertWith (\<lambda>u::unit thrown. ''undefined'')
          (\<lambda>this (w::unit). (Inl (AnyError ''inner'' NoneUnwrapped None), [], w))
          (none :: nat Option_obj) ())
     \<noteq> Inl (AnyError ''inner'' NoneUnwrapped None)"
  by (simp add: getOrInsertWith_def mkAnyError_def opt_defs)

section \<open>takeIf\<close>

text \<open>
  C9, as amended. \<open>takeIf f\<close> on an empty container returns empty, leaves the object
  as it was and does not call \<open>f\<close>. On an occupied one it calls \<open>f\<close> on the contained
  value; the method itself writes to the object only when \<open>f\<close> returns true. Then it
  empties the object by \<open>#setValue(nothing)\<close> and returns what the slot held when \<open>f\<close>
  returned: the value passed to \<open>f\<close>, in an occupied container, when \<open>f\<close> did not
  write to the object, and the empty container when \<open>f\<close> emptied it. When \<open>f\<close>
  returns false or throws, the method returns empty and leaves the object as \<open>f\<close> left
  it: as it was, when \<open>f\<close> did not write to it.
\<close>

theorem takeIf_cases:
  "(isNone this \<longrightarrow> takeIf f this w = (Inr none, this, w)) \<and>
   (\<forall>v ws w'. slot_value this = Held v \<longrightarrow> f v this w = (Inr True, ws, w') \<longrightarrow>
       takeIf f this w =
         (Inr (case slot_value (written ws this) of nothing \<Rightarrow> none | Held x \<Rightarrow> some x),
          setValue nothing this, w') \<and>
       isNone (setValue nothing this)) \<and>
   (\<forall>v w'. slot_value this = Held v \<longrightarrow> f v this w = (Inr True, [], w') \<longrightarrow>
       takeIf f this w = (Inr (some v), setValue nothing this, w')) \<and>
   (\<forall>v ws w'. slot_value this = Held v \<longrightarrow> f v this w = (Inr False, ws, w') \<longrightarrow>
       takeIf f this w = (Inr none, written ws this, w')) \<and>
   (\<forall>v e ws w'. slot_value this = Held v \<longrightarrow> f v this w = (Inl e, ws, w') \<longrightarrow>
       takeIf f this w = (Inr none, written ws this, w')) \<and>
   (\<forall>v r w'. slot_value this = Held v \<longrightarrow> f v this w = (r, [], w') \<longrightarrow> r \<noteq> Inr True \<longrightarrow>
       takeIf f this w = (Inr none, this, w'))"
proof -
  have tv: "\<And>ws. takeValue (written ws this) = (slot_value (written ws this), setValue nothing this)"
    by (simp add: takeValue_def replaceValue_def setValue_written)
  have c1: "isNone this \<longrightarrow> takeIf f this w = (Inr none, this, w)"
    by (simp add: takeIf_def)
  have c2: "\<forall>v ws w'. slot_value this = Held v \<longrightarrow> f v this w = (Inr True, ws, w') \<longrightarrow>
       takeIf f this w =
         (Inr (case slot_value (written ws this) of nothing \<Rightarrow> none | Held x \<Rightarrow> some x),
          setValue nothing this, w') \<and>
       isNone (setValue nothing this)"
    by (simp add: takeIf_def isNone_def get_value_def tv) (simp add: setValue_def)
  have c3: "\<forall>v w'. slot_value this = Held v \<longrightarrow> f v this w = (Inr True, [], w') \<longrightarrow>
       takeIf f this w = (Inr (some v), setValue nothing this, w')"
    by (simp add: takeIf_def isNone_def get_value_def tv written_Nil)
  have c4: "\<forall>v ws w'. slot_value this = Held v \<longrightarrow> f v this w = (Inr False, ws, w') \<longrightarrow>
       takeIf f this w = (Inr none, written ws this, w')"
    by (simp add: takeIf_def isNone_def get_value_def)
  have c5: "\<forall>v e ws w'. slot_value this = Held v \<longrightarrow> f v this w = (Inl e, ws, w') \<longrightarrow>
       takeIf f this w = (Inr none, written ws this, w')"
    by (simp add: takeIf_def isNone_def get_value_def)
  have c6: "\<forall>v r w'. slot_value this = Held v \<longrightarrow> f v this w = (r, [], w') \<longrightarrow> r \<noteq> Inr True \<longrightarrow>
       takeIf f this w = (Inr none, this, w')"
    by (auto simp: takeIf_def isNone_def get_value_def written_Nil split: sum.splits)
  from c1 c2 c3 c4 c5 c6 show ?thesis by (intro conjI)
qed

text \<open>
  The four cases of the method's documentation (\<open>none\<close>, \<open>some(2)\<close> with \<open>n > 0\<close> and
  with \<open>n < 0\<close>, \<open>some(1)\<close> with a predicate that throws), then
  \<open>x.takeIf(() => { x.take(); return true })\<close> and
  \<open>x.takeIf(() => { x.insert(9); return false })\<close> at \<open>some(2)\<close>.
\<close>

theorem takeIf_cases_witness:
  "takeIf (\<lambda>(n::int) this (w::nat). (Inr (0 < n) :: unit thrown + bool, [], Suc w)) none 0
     = (Inr none, none, 0) \<and>
   takeIf (\<lambda>(n::int) this (w::nat). (Inr (0 < n) :: unit thrown + bool, [], Suc w)) (some 2) 0
     = (Inr (some 2), none, 1) \<and>
   takeIf (\<lambda>(n::int) this (w::nat). (Inr (n < 0) :: unit thrown + bool, [], Suc w)) (some 2) 0
     = (Inr none, some 2, 1) \<and>
   takeIf (\<lambda>(n::int) this (w::nat). (Inl (JsError ''boom'') :: unit thrown + bool, [], Suc w)) (some 1) 0
     = (Inr none, some 1, 1) \<and>
   takeIf (\<lambda>(n::int) this (w::nat). (Inr True :: unit thrown + bool, [nothing], Suc w)) (some 2) 0
     = (Inr none, none, 1) \<and>
   takeIf (\<lambda>(n::int) this (w::nat). (Inr False :: unit thrown + bool, [Held 9], Suc w)) (some 2) 0
     = (Inr none, some 9, 1)"
proof -
  let ?pos = "\<lambda>(n::int) (this::int Option_obj) (w::nat).
      (Inr (0 < n) :: unit thrown + bool, [] :: int slot list, Suc w)"
  let ?neg = "\<lambda>(n::int) (this::int Option_obj) (w::nat).
      (Inr (n < 0) :: unit thrown + bool, [] :: int slot list, Suc w)"
  let ?boom = "\<lambda>(n::int) (this::int Option_obj) (w::nat).
      (Inl (JsError ''boom'') :: unit thrown + bool, [] :: int slot list, Suc w)"
  let ?takes = "\<lambda>(n::int) (this::int Option_obj) (w::nat).
      (Inr True :: unit thrown + bool, [nothing :: int slot], Suc w)"
  let ?inserts = "\<lambda>(n::int) (this::int Option_obj) (w::nat).
      (Inr False :: unit thrown + bool, [Held (9::int)], Suc w)"
  have e: "isNone (none :: int Option_obj)" by (simp add: opt_defs)
  have o: "\<And>v::int. slot_value (some v) = Held v" by (simp add: opt_defs)
  have emptied: "setValue nothing (some (2::int)) = none" by (simp add: opt_defs)
  have w1: "written [nothing] (some (2::int)) = none"
    and w2: "written [Held 9] (some (2::int)) = some 9"
    by (simp_all add: written_def opt_defs)
  have sn: "slot_value (none :: int Option_obj) = nothing" by (simp add: opt_defs)
  have pos: "?pos 2 (some 2) 0 = (Inr True, [], 1)"
    and neg: "?neg 2 (some 2) 0 = (Inr False, [], 1)"
    and boom: "?boom 1 (some 1) 0 = (Inl (JsError ''boom''), [], 1)"
    and takes: "?takes 2 (some 2) 0 = (Inr True, [nothing], 1)"
    and inserts: "?inserts 2 (some 2) 0 = (Inr False, [Held 9], 1)"
    by simp_all
  have 1: "takeIf ?pos none 0 = (Inr none, none, 0)"
    using takeIf_cases [of none ?pos 0, THEN conjunct1, rule_format, OF e] .
  have "takeIf ?pos (some 2) 0 = (Inr (some 2), setValue nothing (some 2), 1)"
    using takeIf_cases [of "some 2" ?pos 0, THEN conjunct2, THEN conjunct2, THEN conjunct1,
        rule_format, OF o pos] .
  with emptied have 2: "takeIf ?pos (some 2) 0 = (Inr (some 2), none, 1)" by simp
  have "(Inr False :: unit thrown + bool) \<noteq> Inr True" by simp
  then have 3: "takeIf ?neg (some 2) 0 = (Inr none, some 2, 1)"
    using takeIf_cases [of "some 2" ?neg 0, THEN conjunct2, THEN conjunct2, THEN conjunct2,
        THEN conjunct2, THEN conjunct2, rule_format, OF o neg] by blast
  have "(Inl (JsError ''boom'') :: unit thrown + bool) \<noteq> Inr True" by simp
  then have 4: "takeIf ?boom (some 1) 0 = (Inr none, some 1, 1)"
    using takeIf_cases [of "some 1" ?boom 0, THEN conjunct2, THEN conjunct2, THEN conjunct2,
        THEN conjunct2, THEN conjunct2, rule_format, OF o boom] by blast
  have "takeIf ?takes (some 2) 0
      = (Inr (case slot_value (written [nothing] (some (2::int))) of nothing \<Rightarrow> none | Held x \<Rightarrow> some x),
         setValue nothing (some 2), 1)"
    using takeIf_cases [of "some 2" ?takes 0, THEN conjunct2, THEN conjunct1, rule_format, OF o takes]
    by (rule conjunct1)
  with emptied w1 sn have 5: "takeIf ?takes (some 2) 0 = (Inr none, none, 1)" by simp
  have "takeIf ?inserts (some 2) 0 = (Inr none, written [Held 9] (some 2), 1)"
    using takeIf_cases [of "some 2" ?inserts 0, THEN conjunct2, THEN conjunct2, THEN conjunct2,
        THEN conjunct1, rule_format, OF o inserts] .
  with w2 have 6: "takeIf ?inserts (some 2) 0 = (Inr none, some 9, 1)" by simp
  from 1 2 3 4 5 6 show ?thesis by (intro conjI)
qed

text \<open>
  C9 as stated says that when the container is occupied and the predicate returns
  true, the previously held value is returned in an occupied container. At \<open>some(2)\<close>
  with the predicate \<open>() => { x.take(); return true }\<close> the method does not return
  \<open>some(2)\<close>: \<open>#takeValue()\<close> finds the slot empty and the method returns \<open>none()\<close>.
\<close>

theorem takeIf_reentrant_counterexample:
  "fst (takeIf (\<lambda>v this w. (Inr True, [nothing], w)) (some (2::int)) ())
     \<noteq> (Inr (some 2) :: unit thrown + int Option_obj)"
  by (simp add: takeIf_def written_def opt_defs)

section \<open>The deferred replace, settled\<close>

lemma clone_slot:
  "\<exists>snapshot. (clone this :: 'x thrown + 'a Option_obj) = Inr snapshot \<and>
      slot_value snapshot = slot_value this"
  by (cases "slot_value this") (simp_all add: clone_def opt_defs)

lemma then_setValue_fulfilled:
  "this < length h \<Longrightarrow>
     then_setValue this (Fulfilled v) h = h[this := snd (replace v (h ! this))] \<and>
     length (then_setValue this (Fulfilled v) h) = length h \<and>
     slot_value (then_setValue this (Fulfilled v) h ! this) = Held v \<and>
     phantom (then_setValue this (Fulfilled v) h ! this) = some_tag \<and>
     (\<forall>a. a \<noteq> this \<longrightarrow> then_setValue this (Fulfilled v) h ! a = h ! a)"
  by (simp add: then_setValue_def replace_def replaceValue_def setValue_def isNothing_def Let_def)

lemma then_setValue_rejected: "then_setValue this (Rejected r) h = h"
  by (simp add: then_setValue_def)

text \<open>
  C6. \<open>replace\<close> given a promise, on a live object at address \<open>this\<close>, does not
  throw. It returns the address of a snapshot and a promise, and:
  the snapshot is another object than \<open>this\<close>, holding the slot \<open>this\<close> had at the
  call, and no write to \<open>this\<close> changes it; the call leaves \<open>this\<close> as it was; when
  the promise is fulfilled with \<open>v\<close>, in whatever store that happens, it performs the
  one write that the synchronous \<open>replace(v)\<close> performs (slot \<open>v\<close>, discriminant
  \<open>"some"\<close>) and touches no other object; when it is rejected, the store is left as
  it was.
\<close>

theorem replace_promise_deferred:
  "this < length h \<longrightarrow>
   (\<exists>snap promise h'.
      (replace_promise this h
         :: ('x thrown + nat \<times> (('a, 'r) settlement \<Rightarrow> 'a store \<Rightarrow> 'a store)) \<times> 'a store)
        = (Inr (snap, promise), h') \<and>
      snap \<noteq> this \<and> snap < length h' \<and> this < length h' \<and>
      slot_value (h' ! snap) = slot_value (h ! this) \<and>
      h' ! this = h ! this \<and>
      (\<forall>obj. h'[this := obj] ! snap = h' ! snap) \<and>
      (\<forall>h2 v. this < length h2 \<longrightarrow>
          promise (Fulfilled v) h2 = h2[this := snd (replace v (h2 ! this))] \<and>
          length (promise (Fulfilled v) h2) = length h2 \<and>
          slot_value (promise (Fulfilled v) h2 ! this) = Held v \<and>
          phantom (promise (Fulfilled v) h2 ! this) = some_tag \<and>
          (\<forall>a. a \<noteq> this \<longrightarrow> promise (Fulfilled v) h2 ! a = h2 ! a)) \<and>
      (\<forall>h2 r. promise (Rejected r) h2 = h2))"
  (is "_ \<longrightarrow> (\<exists>snap promise h'. ?P snap promise h')")
proof
  assume live: "this < length h"
  obtain snapshot where c: "(clone (h ! this) :: 'x thrown + 'a Option_obj) = Inr snapshot"
    and s: "slot_value snapshot = slot_value (h ! this)"
    using clone_slot [of "h ! this"] by blast
  let ?snap = "length h" and ?h' = "h @ [snapshot]"
  let ?promise = "then_setValue this :: ('a, 'r) settlement \<Rightarrow> 'a store \<Rightarrow> 'a store"
  have r: "(replace_promise this h
        :: ('x thrown + nat \<times> (('a, 'r) settlement \<Rightarrow> 'a store \<Rightarrow> 'a store)) \<times> 'a store)
      = (Inr (?snap, ?promise), ?h')"
    using c by (simp add: replace_promise_def alloc_def)
  have b1: "?snap \<noteq> this" using live by simp
  have b2: "?snap < length ?h'" by simp
  have b3: "this < length ?h'" using live by simp
  have b4: "slot_value (?h' ! ?snap) = slot_value (h ! this)" using s by simp
  have b5: "?h' ! this = h ! this" using live by (simp add: nth_append)
  have frame: "\<forall>obj. ?h'[this := obj] ! ?snap = ?h' ! ?snap"
    using b1 by (simp only: nth_list_update_neq [OF not_sym] simp_thms)
  have ful: "\<forall>h2 v. this < length h2 \<longrightarrow>
      ?promise (Fulfilled v) h2 = h2[this := snd (replace v (h2 ! this))] \<and>
      length (?promise (Fulfilled v) h2) = length h2 \<and>
      slot_value (?promise (Fulfilled v) h2 ! this) = Held v \<and>
      phantom (?promise (Fulfilled v) h2 ! this) = some_tag \<and>
      (\<forall>a. a \<noteq> this \<longrightarrow> ?promise (Fulfilled v) h2 ! a = h2 ! a)"
    by (intro allI impI) (rule then_setValue_fulfilled)
  have rej: "\<forall>h2 r. ?promise (Rejected r) h2 = h2"
    by (simp add: then_setValue_rejected)
  from r b1 b2 b3 b4 b5 frame ful rej have "?P ?snap ?promise ?h'"
    by (intro conjI)
  then show "\<exists>snap promise h'. ?P snap promise h'"
    by (intro exI)
qed

text \<open>The store holding only \<open>some(2)\<close>: the snapshot holds 2, the live object still is \<open>some(2)\<close> after the call, holds 5 once the promise is fulfilled with 5 (the snapshot unchanged), and a rejection changes nothing.\<close>

theorem replace_promise_deferred_witness:
  "\<exists>snap promise h'.
     (replace_promise 0 [some (2::int)]
        :: (unit thrown + nat \<times> ((int, string) settlement \<Rightarrow> int store \<Rightarrow> int store)) \<times> int store)
       = (Inr (snap, promise), h') \<and>
     snap \<noteq> 0 \<and>
     slot_value (h' ! snap) = Held 2 \<and>
     h' ! 0 = some 2 \<and>
     slot_value (promise (Fulfilled 5) h' ! 0) = Held 5 \<and>
     phantom (promise (Fulfilled 5) h' ! 0) = some_tag \<and>
     promise (Fulfilled 5) h' ! snap = h' ! snap \<and>
     promise (Rejected ''timeout'') h' = h'"
proof -
  have live: "0 < length [some (2::int)]" by simp
  from replace_promise_deferred [of 0 "[some (2::int)]", where ?'x = unit and ?'r = string,
      THEN mp, OF live]
  obtain snap promise h' where
    r: "(replace_promise 0 [some (2::int)]
        :: (unit thrown + nat \<times> ((int, string) settlement \<Rightarrow> int store \<Rightarrow> int store)) \<times> int store)
       = (Inr (snap, promise), h')"
    and d: "snap \<noteq> 0" and l: "0 < length h'"
    and s: "slot_value (h' ! snap) = slot_value ([some (2::int)] ! 0)"
    and u: "h' ! 0 = [some (2::int)] ! 0"
    and ful: "\<forall>h2 v. 0 < length h2 \<longrightarrow>
          promise (Fulfilled v) h2 = h2[0 := snd (replace v (h2 ! 0))] \<and>
          length (promise (Fulfilled v) h2) = length h2 \<and>
          slot_value (promise (Fulfilled v) h2 ! 0) = Held v \<and>
          phantom (promise (Fulfilled v) h2 ! 0) = some_tag \<and>
          (\<forall>a. a \<noteq> 0 \<longrightarrow> promise (Fulfilled v) h2 ! a = h2 ! a)"
    and rej: "\<forall>h2 r. promise (Rejected r) h2 = h2"
    by blast
  have s': "slot_value (h' ! snap) = Held 2" using s by (simp add: opt_defs)
  have u': "h' ! 0 = some 2" using u by simp
  from ful l have f1: "slot_value (promise (Fulfilled 5) h' ! 0) = Held 5"
    and f2: "phantom (promise (Fulfilled 5) h' ! 0) = some_tag"
    and f3: "\<forall>a. a \<noteq> 0 \<longrightarrow> promise (Fulfilled 5) h' ! a = h' ! a"
    by blast+
  from f3 d have f4: "promise (Fulfilled 5) h' ! snap = h' ! snap" by blast
  from rej have r1: "promise (Rejected ''timeout'') h' = h'" by blast
  from r d s' u' f1 f2 f4 r1 show ?thesis by blast
qed

section \<open>The discriminant follows the slot\<close>

lemma phantom_agrees_setValue: "phantom_agrees (setValue v this)"
  by (simp add: phantom_agrees_def setValue_def isNothing_def)

lemma phantom_agrees_new: "phantom_agrees (new_Option arg)"
  by (simp add: new_Option_def fresh_fields_def phantom_agrees_setValue split: option.splits)
    (simp add: phantom_agrees_def)

lemma apply_mutation_setValue:
  "apply_mutation stringify m this = this \<or> (\<exists>v. apply_mutation stringify m this = setValue v this)"
proof (cases m)
  case (Insert x)
  then have "apply_mutation stringify m this = setValue (Held x) this"
    by (simp add: apply_mutation_def insert_opt_def Let_def)
  then show ?thesis by blast
next
  case (GetOrInsert x)
  then have "apply_mutation stringify m this = (if isNone this then setValue (Held x) this else this)"
    by (simp add: apply_mutation_def getOrInsert_def Let_def)
  then show ?thesis by (cases "isNone this") auto
next
  case (GetOrInsertWith f w)
  show ?thesis
  proof (cases "isNone this")
    case False
    with GetOrInsertWith show ?thesis by (simp add: apply_mutation_def getOrInsertWith_def)
  next
    case True
    obtain r ws w' where fw: "f this w = (r, ws, w')" by (cases "f this w")
    show ?thesis
    proof (cases r)
      case (Inl e)
      with True fw GetOrInsertWith have "apply_mutation stringify m this = written ws this"
        by (simp add: apply_mutation_def getOrInsertWith_def)
      then show ?thesis using written_cases [of ws this] by simp
    next
      case (Inr v)
      with True fw GetOrInsertWith
      have "apply_mutation stringify m this = setValue (Held v) this"
        by (simp add: apply_mutation_def getOrInsertWith_def Let_def setValue_written)
      then show ?thesis by blast
    qed
  qed
next
  case (Replace x)
  then have "apply_mutation stringify m this = setValue (Held x) this"
    by (simp add: apply_mutation_def replace_def replaceValue_def Let_def)
  then show ?thesis by blast
next
  case Take
  then have "apply_mutation stringify m this = (if isNone this then this else setValue nothing this)"
    by (simp add: apply_mutation_def take_opt_def takeValue_def replaceValue_def Let_def)
  then show ?thesis by (cases "isNone this") auto
next
  case (TakeIf f w)
  have "fst (snd (takeIf f this w)) = this
      \<or> (\<exists>ws. fst (snd (takeIf f this w)) = written ws this)
      \<or> fst (snd (takeIf f this w)) = setValue nothing this"
    by (simp add: takeIf_def takeValue_def replaceValue_def Let_def get_value_def setValue_written
        split: prod.splits sum.splits slot.splits) blast
  then have "fst (snd (takeIf f this w)) = this \<or> (\<exists>v. fst (snd (takeIf f this w)) = setValue v this)"
    using written_cases [of _ this] by metis
  with TakeIf show ?thesis by (simp add: apply_mutation_def)
next
  case (Settle s)
  then show ?thesis
    by (cases s) (auto simp: apply_mutation_def on_settled_def)
qed

lemma apply_mutation_agrees:
  "phantom_agrees this \<Longrightarrow> phantom_agrees (apply_mutation stringify m this)"
  using apply_mutation_setValue [of stringify m this] phantom_agrees_setValue by auto

lemma foldl_agrees:
  "phantom_agrees this \<Longrightarrow> phantom_agrees (foldl (\<lambda>obj m. apply_mutation stringify m obj) this ms)"
  by (induction ms arbitrary: this) (simp_all add: apply_mutation_agrees)

text \<open>
  C10. An object made by \<open>some\<close> or \<open>none\<close> and then put through any sequence of
  mutating calls (\<open>insert\<close>, \<open>getOrInsert\<close>, \<open>getOrInsertWith\<close>, \<open>replace\<close>,
  \<open>take\<close>, \<open>takeIf\<close>, the settling of a deferred \<open>replace\<close>) has the discriminant
  \<open>"some"\<close> exactly when its slot is not the empty marker. Every mutating call leaves
  the object as it was or is one \<open>#setValue\<close> step, which writes both fields.
\<close>

theorem phantom_tracks_slot:
  "phantom_agrees (foldl (\<lambda>obj m. apply_mutation stringify m obj) (new_Option arg) ms) \<and>
   (apply_mutation stringify m this = this \<or>
    (\<exists>v. apply_mutation stringify m this = setValue v this \<and>
         phantom (setValue v this) = (if v = nothing then none_tag else some_tag) \<and>
         slot_value (setValue v this) = v))"
  using foldl_agrees [OF phantom_agrees_new] apply_mutation_setValue [of stringify m this]
  by (auto simp: setValue_def isNothing_def)

end
